theory Spec2Isabelle
  imports Main
begin

section \<open>Strings\<close>

text \<open>
  A Python \<open>str\<close> is a sequence of code points. The model is \<^typ>\<open>string\<close>, with a
  \<^typ>\<open>char\<close> read as the code point of the same number, so it covers the strings
  whose code points lie below 256. On that range \<open>str.lower\<close> maps each character on
  its own: \<open>A\<close>..\<open>Z\<close> and the capital letters \<open>0xC0\<close>..\<open>0xDE\<close> (but the
  multiplication sign \<open>0xD7\<close>) move up by 32, every other character stays.
\<close>

definition lower_char :: "char \<Rightarrow> char" where
  "lower_char c =
     (let n = (of_char c :: nat)
      in if (65 \<le> n \<and> n \<le> 90) \<or> (192 \<le> n \<and> n \<le> 222 \<and> n \<noteq> 215)
         then char_of (n + 32) else c)"

definition lower :: "string \<Rightarrow> string" where
  "lower s = map lower_char s"

text \<open>\<open>s.startswith(p)\<close>.\<close>

definition startswith :: "string \<Rightarrow> string \<Rightarrow> bool" where
  "startswith s p = (take (length p) s = p)"

text \<open>\<open>sub in s\<close> for two strings: \<open>sub\<close> starts at some position of \<open>s\<close>.\<close>

fun contains :: "string \<Rightarrow> string \<Rightarrow> bool" where
  "contains [] sub = (sub = [])"
| "contains (c # cs) sub = (startswith (c # cs) sub \<or> contains cs sub)"

text \<open>
  \<open>str.strip()\<close> removes the whitespace characters at both ends. Below 256 those are
  tab to carriage return (9..13), the separators 28..31, the space, \<open>0x85\<close> and
  \<open>0xA0\<close>.
\<close>

definition is_space :: "char \<Rightarrow> bool" where
  "is_space c =
     (let n = (of_char c :: nat)
      in (9 \<le> n \<and> n \<le> 13) \<or> (28 \<le> n \<and> n \<le> 32) \<or> n = 133 \<or> n = 160)"

definition strip :: "string \<Rightarrow> string" where
  "strip s = rev (dropWhile is_space (rev (dropWhile is_space s)))"

text \<open>\<open>s.split(sep)\<close> for a separator of one character: always at least one piece.\<close>

fun str_split :: "char \<Rightarrow> string \<Rightarrow> string list" where
  "str_split sep [] = [[]]"
| "str_split sep (c # cs) =
     (if c = sep then [] # str_split sep cs
      else (case str_split sep cs of
              [] \<Rightarrow> [[c]]
            | p # ps \<Rightarrow> (c # p) # ps))"

text \<open>\<open>sep.join(pieces)\<close>.\<close>

fun str_join :: "string \<Rightarrow> string list \<Rightarrow> string" where
  "str_join sep [] = []"
| "str_join sep [x] = x"
| "str_join sep (x # y # ys) = x @ sep @ str_join sep (y # ys)"

text \<open>\<open>str(n)\<close> for an \<open>int\<close>: the decimal digits, a minus sign before a negative number.\<close>

definition digit_char :: "nat \<Rightarrow> char" where
  "digit_char d = char_of (48 + d)"

fun str_of_nat :: "nat \<Rightarrow> string" where
  "str_of_nat n =
     (if n < 10 then [digit_char n] else str_of_nat (n div 10) @ [digit_char (n mod 10)])"

declare str_of_nat.simps [simp del]

definition str_of_int :: "int \<Rightarrow> string" where
  "str_of_int i = (if i < 0 then CHR ''-'' # str_of_nat (nat (- i)) else str_of_nat (nat i))"

section \<open>Exceptions\<close>

text \<open>
  A call either returns a value (\<open>Inr\<close>) or raises (\<open>Inl\<close>). \<open>Raised c\<close> is an
  exception of class \<open>c\<close> that comes out of a collaborator: the HTTP client, the JSON
  decoder, the search client, the template engine, the language model or the executed
  code.
\<close>

datatype py_exn =
    KeyError string
  | TypeError
  | IndexError
  | AssertionError
  | Raised string

definition and_then :: "py_exn + 'a \<Rightarrow> ('a \<Rightarrow> py_exn + 'b) \<Rightarrow> py_exn + 'b" where
  "and_then m f = (case m of Inl e \<Rightarrow> Inl e | Inr x \<Rightarrow> f x)"

text \<open>A list comprehension whose element expression may raise: the first exception wins.\<close>

fun map_exn :: "('a \<Rightarrow> py_exn + 'b) \<Rightarrow> 'a list \<Rightarrow> py_exn + 'b list" where
  "map_exn f [] = Inr []"
| "map_exn f (x # xs) =
     (case f x of
        Inl e \<Rightarrow> Inl e
      | Inr y \<Rightarrow> (case map_exn f xs of Inl e \<Rightarrow> Inl e | Inr ys \<Rightarrow> Inr (y # ys)))"

text \<open>A \<open>for\<close> loop that updates one variable and whose body may raise.\<close>

fun fold_exn :: "('a \<Rightarrow> 'b \<Rightarrow> py_exn + 'b) \<Rightarrow> 'a list \<Rightarrow> 'b \<Rightarrow> py_exn + 'b" where
  "fold_exn f [] acc = Inr acc"
| "fold_exn f (x # xs) acc =
     (case f x acc of Inl e \<Rightarrow> Inl e | Inr acc' \<Rightarrow> fold_exn f xs acc')"

section \<open>Self-Refine: the halting test\<close>

text \<open>
  \<^verbatim>\<open>
  def _is_halted(feedback: str) -> bool:
      return "it is correct" in feedback.lower()
  \<close>
\<close>

definition is_halted :: "string \<Rightarrow> bool" where
  "is_halted feedback = contains (lower feedback) ''it is correct''"

section \<open>Self-Refine: prompting the model\<close>

text \<open>
  Two collaborators are not part of the repository and are taken as parameters.
  \<^item> \<open>fmt template fields\<close> is \<open>PromptTemplate.from_template(template).format(**fields)\<close>:
    the rendered prompt, or the exception the template engine raises.
  \<^item> \<open>llm\<close> is the chat model. It is called with a list of messages and answers with the
    \<open>content\<close> of its reply, which is a \<open>str\<close> or a list of content blocks, or it
    raises. Its answer may depend on the calls made before, so it also reads the log of
    those calls; every call is appended to the log. A reply that is not a \<open>str\<close> fails
    the caller's \<open>assert isinstance(out, str)\<close>.
  The leading underscore of the Python names is dropped.
\<close>

datatype message = HumanMessage string

datatype content = ContentStr string | ContentBlocks

type_synonym llm_log = "message list list"

type_synonym chat_model = "llm_log \<Rightarrow> message list \<Rightarrow> py_exn + content"

type_synonym template_engine = "string \<Rightarrow> (string \<times> string) list \<Rightarrow> py_exn + string"

definition call_llm ::
  "chat_model \<Rightarrow> message list \<Rightarrow> llm_log \<Rightarrow> (py_exn + content) \<times> llm_log" where
  "call_llm llm msgs log = (llm log msgs, log @ [msgs])"

text \<open>
  \<^verbatim>\<open>
  def _build_agent_prompt(question, examples, prompt=SELF_REFINE_INSTRUCTION_GSM8K):
      prompt = PromptTemplate.from_template(prompt).format(
          question=question, examples=examples)
      return prompt
  \<close>
\<close>

definition build_agent_prompt ::
  "template_engine \<Rightarrow> string \<Rightarrow> string \<Rightarrow> string \<Rightarrow> py_exn + string" where
  "build_agent_prompt fmt question examples prompt =
     fmt prompt [(''question'', question), (''examples'', examples)]"

text \<open>
  \<^verbatim>\<open>
  def _prompt_agent(llm, question, examples, prompt=SELF_REFINE_INSTRUCTION_GSM8K):
      prompt = _build_agent_prompt(question=question, examples=examples, prompt=prompt)
      out = llm([HumanMessage(content=prompt)]).content
      assert isinstance(out, str)
      return out.strip()
  \<close>
\<close>

definition prompt_agent ::
  "template_engine \<Rightarrow> chat_model \<Rightarrow> string \<Rightarrow> string \<Rightarrow> string \<Rightarrow> llm_log \<Rightarrow>
     (py_exn + string) \<times> llm_log" where
  "prompt_agent fmt llm question examples prompt log =
     (case build_agent_prompt fmt question examples prompt of
        Inl e \<Rightarrow> (Inl e, log)
      | Inr p \<Rightarrow>
        (case call_llm llm [HumanMessage p] log of
           (Inl e, log') \<Rightarrow> (Inl e, log')
         | (Inr (ContentStr out), log') \<Rightarrow> (Inr (strip out), log')
         | (Inr ContentBlocks, log') \<Rightarrow> (Inl AssertionError, log')))"

text \<open>
  \<^verbatim>\<open>
  def _build_feedback_prompt(examples, solution,
                             prompt=SELF_REFINE_FEEDBACK_INSTRUCTION_GSM8K):
      prompt = PromptTemplate.from_template(prompt).format(
          examples=examples, solution=solution)
      return prompt
  \<close>
\<close>

definition build_feedback_prompt ::
  "template_engine \<Rightarrow> string \<Rightarrow> string \<Rightarrow> string \<Rightarrow> py_exn + string" where
  "build_feedback_prompt fmt examples solution prompt =
     fmt prompt [(''examples'', examples), (''solution'', solution)]"

text \<open>
  \<^verbatim>\<open>
  def _prompt_feedback(llm, examples, solution,
                       prompt=SELF_REFINE_FEEDBACK_INSTRUCTION_GSM8K):
      prompt = _build_feedback_prompt(examples=examples, solution=solution, prompt=prompt)
      out = llm([HumanMessage(content=prompt)]).content
      assert isinstance(out, str)
      return out.strip()
  \<close>
\<close>

definition prompt_feedback ::
  "template_engine \<Rightarrow> chat_model \<Rightarrow> string \<Rightarrow> string \<Rightarrow> string \<Rightarrow> llm_log \<Rightarrow>
     (py_exn + string) \<times> llm_log" where
  "prompt_feedback fmt llm examples solution prompt log =
     (case build_feedback_prompt fmt examples solution prompt of
        Inl e \<Rightarrow> (Inl e, log)
      | Inr p \<Rightarrow>
        (case call_llm llm [HumanMessage p] log of
           (Inl e, log') \<Rightarrow> (Inl e, log')
         | (Inr (ContentStr out), log') \<Rightarrow> (Inr (strip out), log')
         | (Inr ContentBlocks, log') \<Rightarrow> (Inl AssertionError, log')))"

text \<open>
  \<^verbatim>\<open>
  def _build_refine_prompt(examples, solution, feedback,
                           prompt=SELF_REFINE_REFINE_INSTRUCTION_GSM8K):
      prompt = PromptTemplate.from_template(prompt).format(
          examples=examples, solution=solution, feedback=feedback)
      return prompt
  \<close>
\<close>

definition build_refine_prompt ::
  "template_engine \<Rightarrow> string \<Rightarrow> string \<Rightarrow> string \<Rightarrow> string \<Rightarrow> py_exn + string" where
  "build_refine_prompt fmt examples solution feedback prompt =
     fmt prompt [(''examples'', examples), (''solution'', solution), (''feedback'', feedback)]"

text \<open>
  \<^verbatim>\<open>
  def _prompt_refine(llm, examples, solution, feedback,
                     prompt=SELF_REFINE_REFINE_INSTRUCTION_GSM8K):
      prompt = _build_refine_prompt(
          examples=examples, solution=solution, feedback=feedback, prompt=prompt)
      out = llm([HumanMessage(content=prompt)]).content
      assert isinstance(out, str)
      return out.strip()
  \<close>
\<close>

definition prompt_refine ::
  "template_engine \<Rightarrow> chat_model \<Rightarrow> string \<Rightarrow> string \<Rightarrow> string \<Rightarrow> string \<Rightarrow> llm_log \<Rightarrow>
     (py_exn + string) \<times> llm_log" where
  "prompt_refine fmt llm examples solution feedback prompt log =
     (case build_refine_prompt fmt examples solution feedback prompt of
        Inl e \<Rightarrow> (Inl e, log)
      | Inr p \<Rightarrow>
        (case call_llm llm [HumanMessage p] log of
           (Inl e, log') \<Rightarrow> (Inl e, log')
         | (Inr (ContentStr out), log') \<Rightarrow> (Inr (strip out), log')
         | (Inr ContentBlocks, log') \<Rightarrow> (Inl AssertionError, log')))"

section \<open>Agent tools: running Python code\<close>

text \<open>
  \<open>exec\<close> is the Python interpreter, a parameter of the model: \<open>exec code\<close> is the
  outcome of \<open>exec(code, globals(), local_vars)\<close> on an empty \<open>local_vars\<close>. The code
  runs to its end and leaves its variables in \<open>local_vars\<close> (a dict: the names in the
  order of their first assignment, no name twice, each with its value), or it raises an
  exception of class \<open>Exception\<close>, of which the model keeps the text \<open>str(e)\<close>, or
  it raises one outside \<open>Exception\<close> (\<open>SystemExit\<close>, \<open>KeyboardInterrupt\<close>), of
  which the model keeps the class. Code that never ends keeps the tool from returning,
  and has no outcome here.

  A value is an \<open>int\<close>, a \<open>str\<close> or any other object; of the latter the model keeps
  what formatting it in an f-string gives, its text or the exception its own
  \<open>__format__\<close> raises.
\<close>

datatype pyval = PInt int | PStr string | PObj "py_exn + string"

datatype exec_outcome =
    Completed "(string \<times> pyval) list"
  | RaisedException string
  | RaisedBaseException string

text \<open>\<open>f"{value}"\<close>.\<close>

fun format_value :: "pyval \<Rightarrow> py_exn + string" where
  "format_value (PInt i) = Inr (str_of_int i)"
| "format_value (PStr s) = Inr s"
| "format_value (PObj r) = r"

text \<open>
  \<^verbatim>\<open>
  def execute_python(input_code: str) -> str:
      local_vars = {}
      input_code = input_code.split(";")
      input_code = [line.strip() for line in input_code]
      input_code = "\n".join(input_code)
      try:
          exec(input_code, globals(), local_vars)
      except Exception as e:
          return str(e)
      variables_dict = {
          var: local_vars[var] for var in local_vars if not var.startswith("__")
      }
      result = ", ".join([f"{key} = {value}" for key, value in variables_dict.items()])
      return result
  \<close>
  The first three lines are \<open>prepare_code\<close>; the source has no name for them.
\<close>

definition prepare_code :: "string \<Rightarrow> string" where
  "prepare_code input_code = str_join ''\<newline>'' (map strip (str_split CHR '';'' input_code))"

definition execute_python :: "(string \<Rightarrow> exec_outcome) \<Rightarrow> string \<Rightarrow> py_exn + string" where
  "execute_python exec input_code =
     (case exec (prepare_code input_code) of
        RaisedException msg \<Rightarrow> Inr msg
      | RaisedBaseException cls \<Rightarrow> Inl (Raised cls)
      | Completed local_vars \<Rightarrow>
          and_then
            (map_exn
               (\<lambda>var. case map_of local_vars var of
                        None \<Rightarrow> Inl (KeyError var)
                      | Some value \<Rightarrow> Inr (var, value))
               (filter (\<lambda>var. \<not> startswith var ''__'') (map fst local_vars)))
            (\<lambda>variables_dict.
               and_then
                 (map_exn
                    (\<lambda>(key, value).
                       and_then (format_value value) (\<lambda>txt. Inr (key @ '' = '' @ txt)))
                    variables_dict)
                 (\<lambda>items. Inr (str_join '', '' items))))"

section \<open>Agent tools: Wolfram Alpha\<close>

text \<open>
  \<open>os.environ\<close> is a map from names to values; \<open>os.environ.get(name)\<close> is \<open>None\<close>
  for a name that is not set. Python's \<open>not v\<close> holds of \<open>None\<close> and of the empty
  string.
\<close>

type_synonym environ = "string \<rightharpoonup> string"

definition py_not :: "string option \<Rightarrow> bool" where
  "py_not v = (case v of None \<Rightarrow> True | Some s \<Rightarrow> s = [])"

text \<open>
  What \<open>response.json()\<close> returns: \<open>None\<close>, a \<open>bool\<close>, a number, a \<open>str\<close>, a
  list or a dict with \<open>str\<close> keys (in their order, no key twice). The code does no
  arithmetic, and a \<open>float\<close> behaves like an \<open>int\<close> in each operation below.
\<close>

datatype json =
    JNull
  | JBool bool
  | JNum int
  | JStr string
  | JList "json list"
  | JDict "(string \<times> json) list"

text \<open>\<open>v[key]\<close> for a \<open>str\<close> key: only a dict can be read this way.\<close>

fun py_getitem :: "json \<Rightarrow> string \<Rightarrow> py_exn + json" where
  "py_getitem (JDict kvs) key =
     (case map_of kvs key of None \<Rightarrow> Inl (KeyError key) | Some v \<Rightarrow> Inr v)"
| "py_getitem v key = Inl TypeError"

text \<open>
  \<open>key in v\<close> for a \<open>str\<close> key: a key of a dict, an element of a list, a substring
  of a \<open>str\<close>; \<open>None\<close>, a \<open>bool\<close> and a number are not containers.
\<close>

fun py_in :: "string \<Rightarrow> json \<Rightarrow> py_exn + bool" where
  "py_in key (JDict kvs) = Inr (map_of kvs key \<noteq> None)"
| "py_in key (JList vs) = Inr (JStr key \<in> set vs)"
| "py_in key (JStr s) = Inr (contains s key)"
| "py_in key v = Inl TypeError"

text \<open>
  \<open>for x in v\<close>: the elements of a list, the keys of a dict, the characters of a
  \<open>str\<close>.
\<close>

fun py_iter :: "json \<Rightarrow> py_exn + json list" where
  "py_iter (JList vs) = Inr vs"
| "py_iter (JDict kvs) = Inr (map (\<lambda>kv. JStr (fst kv)) kvs)"
| "py_iter (JStr s) = Inr (map (\<lambda>c. JStr [c]) s)"
| "py_iter v = Inl TypeError"

text \<open>\<open>v + text\<close> for a \<open>str\<close> \<open>text\<close>: only a \<open>str\<close> can be its left operand.\<close>

fun py_add_str :: "json \<Rightarrow> string \<Rightarrow> py_exn + string" where
  "py_add_str (JStr s) t = Inr (s @ t)"
| "py_add_str v t = Inl TypeError"

text \<open>
  A response of the HTTP client: its status code and what \<open>response.json()\<close> gives, a
  decoded value or the decoder's exception. \<open>requests_get url params\<close> is
  \<open>requests.get(url, params=params)\<close>, a parameter of the model: a response, or the
  exception of a request that got none. The tool returns its result and the list of the
  requests it sent.
\<close>

record response =
  status_code :: int
  json_body :: "py_exn + json"

type_synonym http_request = "string \<times> (string \<times> string) list"

type_synonym http_client = "string \<Rightarrow> (string \<times> string) list \<Rightarrow> py_exn + response"

text \<open>
  \<^verbatim>\<open>
              for subpod in pod["subpods"]:
                  output_string += subpod["plaintext"] + "\n"
  \<close>
\<close>

definition add_subpod :: "json \<Rightarrow> string \<Rightarrow> py_exn + string" where
  "add_subpod subpod output_string =
     and_then (py_getitem subpod ''plaintext'') (\<lambda>plaintext.
     and_then (py_add_str plaintext ''\<newline>'') (\<lambda>line.
     Inr (output_string @ line)))"

text \<open>
  \<^verbatim>\<open>
          for pod in pods:
              if pod["title"] != "Input interpretation":
                  output_string += pod["title"] + ":\n"
                  for subpod in pod["subpods"]:
                      output_string += subpod["plaintext"] + "\n"
  \<close>
\<close>

definition add_pod :: "json \<Rightarrow> string \<Rightarrow> py_exn + string" where
  "add_pod pod output_string =
     and_then (py_getitem pod ''title'') (\<lambda>title.
     if title \<noteq> JStr ''Input interpretation'' then
       and_then (py_add_str title '':\<newline>'') (\<lambda>heading.
       and_then (py_getitem pod ''subpods'') (\<lambda>subpods.
       and_then (py_iter subpods) (\<lambda>subpod_list.
       fold_exn add_subpod subpod_list (output_string @ heading))))
     else Inr output_string)"

text \<open>
  \<^verbatim>\<open>
  def execute_wolfram(query: str) -> str:
      app_id = os.environ.get("WOLFRAM_ALPHA_APP_ID")
      if not app_id:
          return "Wolfram Alpha API key not found in environment variables. Use a different tool."
      base_url = "https://api.wolframalpha.com/v2/query"
      params = {"input": query, "format": "plaintext", "output": "JSON", "appid": app_id}
      response = requests.get(base_url, params=params)
      if response.status_code == 200:
          result = response.json()
          if "queryresult" in result:
              pods = result["queryresult"]["pods"]
              output_string = ""
              for pod in pods:
                  ...
              return output_string.strip()
          else:
              return "No results found using Wolfram Alpha API."
      else:
          return "Error occurred: " + str(response.status_code)
  \<close>
  The bodies of the two loops are \<open>add_subpod\<close> and \<open>add_pod\<close> above, and what the
  tool does with the response is \<open>wolfram_result\<close>; the source has no names for them.
\<close>

definition wolfram_not_found :: string where
  "wolfram_not_found =
     ''Wolfram Alpha API key not found in environment variables. Use a different tool.''"

definition wolfram_base_url :: string where
  "wolfram_base_url = ''https://api.wolframalpha.com/v2/query''"

definition wolfram_params :: "string \<Rightarrow> string \<Rightarrow> (string \<times> string) list" where
  "wolfram_params query app_id =
     [(''input'', query), (''format'', ''plaintext''), (''output'', ''JSON''),
      (''appid'', app_id)]"

definition wolfram_result :: "response \<Rightarrow> py_exn + string" where
  "wolfram_result response =
     (if status_code response = 200 then
        and_then (json_body response) (\<lambda>result.
        and_then (py_in ''queryresult'' result) (\<lambda>found.
        if found then
          and_then (py_getitem result ''queryresult'') (\<lambda>queryresult.
          and_then (py_getitem queryresult ''pods'') (\<lambda>pods.
          and_then (py_iter pods) (\<lambda>pod_list.
          and_then (fold_exn add_pod pod_list []) (\<lambda>output_string.
          Inr (strip output_string)))))
        else Inr ''No results found using Wolfram Alpha API.''))
      else Inr (''Error occurred: '' @ str_of_int (status_code response)))"

definition execute_wolfram ::
  "environ \<Rightarrow> http_client \<Rightarrow> string \<Rightarrow> (py_exn + string) \<times> http_request list" where
  "execute_wolfram environ requests_get query =
     (let app_id = environ ''WOLFRAM_ALPHA_APP_ID''
      in if py_not app_id then (Inr wolfram_not_found, [])
         else
           (let base_url = wolfram_base_url;
                params = wolfram_params query (case app_id of None \<Rightarrow> [] | Some v \<Rightarrow> v)
            in (case requests_get base_url params of
                  Inl e \<Rightarrow> Inl e
                | Inr response \<Rightarrow> wolfram_result response,
                [(base_url, params)])))"

section \<open>Agent tools: Google search\<close>

text \<open>
  \<open>search_results google_key cse_id query n\<close> is
  \<open>GoogleSearchAPIWrapper(google_api_key=google_key, google_cse_id=cse_id).results(query,
  num_results=n)\<close>, a parameter of the model: a list of results, each a dict from
  \<open>str\<close> to \<open>str\<close>, or the exception the search client raises.
  \<^verbatim>\<open>
  def search_google(query: str) -> str:
      cse_id = os.environ.get("GOOGLE_CSE_ID")
      google_key = os.environ.get("GOOGLE_API_KEY")
      if not cse_id or not google_key:
          return "Google search key(s) not found in environment variables. Use a different tool."
      search = GoogleSearchAPIWrapper(google_api_key=google_key, google_cse_id=cse_id)
      search_result = search.results(query, num_results=1)[-1]
      return search_result["snippet"]
  \<close>
  \<open>xs[-1]\<close> is the last element, and raises on an empty list.
\<close>

type_synonym search_client =
  "string \<Rightarrow> string \<Rightarrow> string \<Rightarrow> nat \<Rightarrow> py_exn + (string \<times> string) list list"

definition google_not_found :: string where
  "google_not_found =
     ''Google search key(s) not found in environment variables. Use a different tool.''"

definition search_google :: "environ \<Rightarrow> search_client \<Rightarrow> string \<Rightarrow> py_exn + string" where
  "search_google environ search_results query =
     (let cse_id = environ ''GOOGLE_CSE_ID'';
          google_key = environ ''GOOGLE_API_KEY''
      in if py_not cse_id \<or> py_not google_key then Inr google_not_found
         else
           and_then
             (search_results (case google_key of None \<Rightarrow> [] | Some v \<Rightarrow> v)
                (case cse_id of None \<Rightarrow> [] | Some v \<Rightarrow> v) query 1)
             (\<lambda>results.
                and_then (if results = [] then Inl IndexError else Inr (last results))
                  (\<lambda>search_result.
                     case map_of search_result ''snippet'' of
                       None \<Rightarrow> Inl (KeyError ''snippet'')
                     | Some snippet \<Rightarrow> Inr snippet)))"

section \<open>Sample collaborators\<close>

text \<open>
  Concrete collaborators for the worked examples: a template engine that appends the
  field values to the template, and a chat model that answers by the number of calls made
  before (an answer, then feedback, then a refined answer), each padded with whitespace.
\<close>

definition sample_engine :: template_engine where
  "sample_engine template kvs = Inr (template @ concat (map snd kvs))"

definition sample_llm :: chat_model where
  "sample_llm log msgs =
     Inr (ContentStr
       (if length log = 0 then ''  4 \<newline>''
        else if length log = 1 then '' The sum is wrong. ''
        else ''\<newline>5''))"

text \<open>
  A sample interpreter: what Python does on four programs. On any other program its
  answer is arbitrary (an exception with a fixed text); the examples do not go there.
  \<^item> \<open>a = 1*100\<close> binds \<open>a\<close> to 100.
  \<^item> \<open>a = 100\<close>, \<open>__t = a + 1\<close>, \<open>b = str(a)\<close>, \<open>c = a / 8\<close> on four lines bind
    \<open>a\<close> to 100, \<open>__t\<close> to 101, \<open>b\<close> to the string \<open>100\<close> and \<open>c\<close> to a float
    that formats as \<open>12.5\<close>.
  \<^item> \<open>1/0\<close> raises \<open>ZeroDivisionError\<close>, whose text is \<open>division by zero\<close>.
  \<^item> \<open>raise SystemExit\<close> raises \<open>SystemExit\<close>, which is not an \<open>Exception\<close>.
\<close>

definition sample_exec :: "string \<Rightarrow> exec_outcome" where
  "sample_exec code =
     (if code = ''a = 1*100'' then Completed [(''a'', PInt (1 * 100))]
      else if code = ''a = 100\<newline>__t = a + 1\<newline>b = str(a)\<newline>c = a / 8'' then
        Completed [(''a'', PInt 100), (''__t'', PInt (100 + 1)), (''b'', PStr ''100''),
          (''c'', PObj (Inr ''12.5''))]
      else if code = ''1/0'' then RaisedException ''division by zero''
      else if code = ''raise SystemExit'' then RaisedBaseException ''SystemExit''
      else RaisedException ''invalid syntax'')"

text \<open>
  Sample HTTP clients: one whose request gets no response (the HTTP library raises
  \<open>ConnectionError\<close>), one that answers every request with a given status code and a
  body that is not JSON, and one that answers 200 with a given decoded body.
\<close>

definition unreachable_client :: http_client where
  "unreachable_client url params = Inl (Raised ''ConnectionError'')"

definition status_client :: "int \<Rightarrow> http_client" where
  "status_client code url params =
     Inr \<lparr>status_code = code, json_body = Inl (Raised ''JSONDecodeError'')\<rparr>"


text \<open>
  Sample search clients: one that finds two results, and one that finds nothing and
  answers, as the search library does then, with a single result that has no snippet.
\<close>

definition two_results :: search_client where
  "two_results google_key cse_id query n =
     Inr [[(''title'', ''First''), (''link'', ''https://a.example''), (''snippet'', ''first hit'')],
          [(''title'', ''Second''), (''link'', ''https://b.example''), (''snippet'', ''last hit'')]]"


section \<open>Facts about strings\<close>

lemma startswith_iff: "startswith s p \<longleftrightarrow> (\<exists>post. s = p @ post)"
proof
  assume "startswith s p"
  then have "s = p @ drop (length p) s"
    by (metis append_take_drop_id startswith_def)
  then show "\<exists>post. s = p @ post" ..
next
  assume "\<exists>post. s = p @ post"
  then show "startswith s p"
    by (auto simp: startswith_def)
qed

lemma contains_iff: "contains s sub \<longleftrightarrow> (\<exists>pre post. s = pre @ sub @ post)"
proof (induction s)
  case Nil
  then show ?case by auto
next
  case (Cons c cs)
  show ?case
  proof
    assume "contains (c # cs) sub"
    then consider "startswith (c # cs) sub" | "contains cs sub" by auto
    then show "\<exists>pre post. c # cs = pre @ sub @ post"
    proof cases
      case 1
      then obtain post where "c # cs = sub @ post"
        using startswith_iff by blast
      then have "c # cs = [] @ sub @ post" by simp
      then show ?thesis by blast
    next
      case 2
      then obtain pre post where "cs = pre @ sub @ post"
        using Cons.IH by blast
      then have "c # cs = (c # pre) @ sub @ post" by simp
      then show ?thesis by blast
    qed
  next
    assume "\<exists>pre post. c # cs = pre @ sub @ post"
    then obtain pre post where eq: "c # cs = pre @ sub @ post" by blast
    show "contains (c # cs) sub"
    proof (cases pre)
      case Nil
      with eq have "startswith (c # cs) sub"
        using startswith_iff by auto
      then show ?thesis by simp
    next
      case (Cons d pre')
      with eq have "cs = pre' @ sub @ post" by simp
      then have "contains cs sub"
        using Cons.IH by blast
      then show ?thesis by simp
    qed
  qed
qed

lemma lower_append: "lower (s @ t) = lower s @ lower t"
  by (simp add: lower_def)

lemma lower_eq_append:
  assumes "lower s = a @ b"
  shows "\<exists>a' b'. s = a' @ b' \<and> lower a' = a \<and> lower b' = b"
proof -
  have "s = take (length a) s @ drop (length a) s" by simp
  moreover have "lower (take (length a) s) = a"
    using assms by (simp add: lower_def take_map [symmetric])
  moreover have "lower (drop (length a) s) = b"
    using assms by (simp add: lower_def drop_map [symmetric])
  ultimately show ?thesis by blast
qed

lemma lower_split:
  "lower s = a @ b @ c \<longleftrightarrow>
     (\<exists>a' b' c'. s = a' @ b' @ c' \<and> lower a' = a \<and> lower b' = b \<and> lower c' = c)"
proof
  assume "lower s = a @ b @ c"
  then obtain a' r where r: "s = a' @ r" "lower a' = a" "lower r = b @ c"
    using lower_eq_append by blast
  then obtain b' c' where "r = b' @ c'" "lower b' = b" "lower c' = c"
    using lower_eq_append by blast
  with r show "\<exists>a' b' c'. s = a' @ b' @ c' \<and> lower a' = a \<and> lower b' = b \<and> lower c' = c"
    by blast
next
  assume "\<exists>a' b' c'. s = a' @ b' @ c' \<and> lower a' = a \<and> lower b' = b \<and> lower c' = c"
  then show "lower s = a @ b @ c"
    by (auto simp: lower_append)
qed

lemma strip_decomp:
  "s = takeWhile is_space s @ strip s @ rev (takeWhile is_space (rev (dropWhile is_space s)))"
proof -
  let ?t = "dropWhile is_space s"
  have "?t = rev (dropWhile is_space (rev ?t)) @ rev (takeWhile is_space (rev ?t))"
    by (metis rev_append rev_rev_ident takeWhile_dropWhile_id)
  then have "?t = strip s @ rev (takeWhile is_space (rev ?t))"
    by (simp add: strip_def)
  moreover have "s = takeWhile is_space s @ ?t"
    by simp
  ultimately show ?thesis by simp
qed

lemma strip_no_leading:
  assumes "strip s = c # cs"
  shows "\<not> is_space c"
proof -
  let ?t = "dropWhile is_space s"
  have "?t = strip s @ rev (takeWhile is_space (rev ?t))"
    using strip_decomp [of s] by (metis same_append_eq takeWhile_dropWhile_id)
  with assms have "?t = c # (cs @ rev (takeWhile is_space (rev ?t)))"
    by simp
  then have "?t \<noteq> [] \<and> hd ?t = c"
    by (metis list.sel(1) list.distinct(1))
  then show ?thesis
    using hd_dropWhile by metis
qed

lemma strip_no_trailing:
  assumes "strip s = cs @ [c]"
  shows "\<not> is_space c"
proof -
  let ?u = "dropWhile is_space (rev (dropWhile is_space s))"
  from assms have "rev ?u = cs @ [c]"
    by (simp add: strip_def)
  then have "?u = c # rev cs"
    by (metis rev_rev_ident rev_append rev.simps append_Cons append_Nil)
  then have "?u \<noteq> [] \<and> hd ?u = c"
    by simp
  then show ?thesis
    using hd_dropWhile by metis
qed

lemma strip_spaces_only:
  "\<exists>pre post. s = pre @ strip s @ post \<and> list_all is_space pre \<and> list_all is_space post"
proof -
  have "list_all is_space (takeWhile is_space s)"
    by (simp add: list_all_iff) (metis set_takeWhileD)
  moreover have "list_all is_space (rev (takeWhile is_space (rev (dropWhile is_space s))))"
    by (simp add: list_all_iff) (metis set_takeWhileD)
  ultimately show ?thesis
    using strip_decomp [of s] by blast
qed

section \<open>Facts about the model callers\<close>










lemma is_halted_occurrence:
  "is_halted feedback \<longleftrightarrow> (\<exists>pre post. lower feedback = pre @ ''it is correct'' @ post)"
  by (simp add: is_halted_def contains_iff)

section \<open>Facts about the tools\<close>







lemma prepare_code_example: "prepare_code ''a = 1*100'' = ''a = 1*100''"
  by (simp add: prepare_code_def strip_def is_space_def)


lemma str_of_int_100: "str_of_int 100 = ''100''"
  by (simp add: str_of_int_def str_of_nat.simps digit_char_def char_of_eq_iff)

lemma py_not_iff: "py_not v \<longleftrightarrow> v = None \<or> v = Some []"
  by (cases v) (simp_all add: py_not_def)

lemma execute_wolfram_no_app_id:
  assumes "environ ''WOLFRAM_ALPHA_APP_ID'' = None \<or> environ ''WOLFRAM_ALPHA_APP_ID'' = Some []"
  shows "execute_wolfram environ requests_get query = (Inr wolfram_not_found, [])"
  using assms by (auto simp: execute_wolfram_def py_not_iff)

lemma execute_wolfram_with_app_id:
  assumes "environ ''WOLFRAM_ALPHA_APP_ID'' = Some app_id" and "app_id \<noteq> []"
  shows "execute_wolfram environ requests_get query =
    (case requests_get wolfram_base_url (wolfram_params query app_id) of
       Inl e \<Rightarrow> Inl e
     | Inr response \<Rightarrow> wolfram_result response,
     [(wolfram_base_url, wolfram_params query app_id)])"
  using assms by (simp add: execute_wolfram_def py_not_iff Let_def)

lemma search_google_no_keys:
  assumes "environ ''GOOGLE_CSE_ID'' = None \<or> environ ''GOOGLE_CSE_ID'' = Some []
    \<or> environ ''GOOGLE_API_KEY'' = None \<or> environ ''GOOGLE_API_KEY'' = Some []"
  shows "search_google environ search_results query = Inr google_not_found"
  using assms by (auto simp: search_google_def py_not_iff)

lemma search_google_with_keys:
  assumes "environ ''GOOGLE_CSE_ID'' = Some cse_id" and "cse_id \<noteq> []"
    and "environ ''GOOGLE_API_KEY'' = Some google_key" and "google_key \<noteq> []"
  shows "search_google environ search_results query =
    and_then (search_results google_key cse_id query 1)
      (\<lambda>results.
         and_then (if results = [] then Inl IndexError else Inr (last results))
           (\<lambda>search_result.
              case map_of search_result ''snippet'' of
                None \<Rightarrow> Inl (KeyError ''snippet'')
              | Some snippet \<Rightarrow> Inr snippet))"
  using assms by (simp add: search_google_def py_not_iff)

lemma wolfram_not_found_text:
  "contains wolfram_not_found ''not found in environment variables''"
  by (simp add: wolfram_not_found_def startswith_def)

lemma str_of_int_500: "str_of_int 500 = ''500''"
  by (simp add: str_of_int_def str_of_nat.simps digit_char_def char_of_eq_iff)







text \<open>
  A response of the kind the service sends for \<open>2+2\<close>: the pod that repeats the input is
  skipped, the others are listed under their titles.
\<close>

lemma wolfram_result_pods_example:
  "wolfram_result
     \<lparr>status_code = 200,
      json_body = Inr (JDict [(''queryresult'', JDict [(''success'', JBool True),
        (''pods'', JList
          [JDict [(''title'', JStr ''Input interpretation''),
                  (''subpods'', JList [JDict [(''plaintext'', JStr ''2 + 2'')]])],
           JDict [(''title'', JStr ''Result''),
                  (''subpods'', JList [JDict [(''plaintext'', JStr ''4'')]])],
           JDict [(''title'', JStr ''Number name''),
                  (''subpods'', JList [JDict [(''plaintext'', JStr ''four'')]])]])])])\<rparr>
   = Inr ''Result:\<newline>4\<newline>Number name:\<newline>four''"
  by (simp add: wolfram_result_def and_then_def add_pod_def add_subpod_def strip_def
      is_space_def)

section \<open>The halting test: claims\<close>

text \<open>
  C1. \<open>_is_halted\<close> is true exactly when the lowercased feedback contains
  \<open>it is correct\<close>, which is to say exactly when the feedback contains a piece that
  lowercases to it: every casing variant halts, in any surrounding text, and feedback
  without the phrase does not. The spec's four examples are evaluated.
\<close>

theorem is_halted_iff_phrase:
  "(is_halted feedback \<longleftrightarrow> (\<exists>pre post. lower feedback = pre @ ''it is correct'' @ post))
   \<and> (is_halted feedback \<longleftrightarrow>
        (\<exists>pre v post. feedback = pre @ v @ post \<and> lower v = ''it is correct''))
   \<and> is_halted ''It Is Correct''
   \<and> is_halted ''it is correct''
   \<and> is_halted ''IT IS CORRECT''
   \<and> \<not> is_halted ''the answer is correctish''"
proof -
  have lowered: "is_halted feedback \<longleftrightarrow>
      (\<exists>pre post. lower feedback = pre @ ''it is correct'' @ post)"
    by (rule is_halted_occurrence)
  have "(\<exists>pre post. lower feedback = pre @ ''it is correct'' @ post) \<longleftrightarrow>
      (\<exists>pre v post. feedback = pre @ v @ post \<and> lower v = ''it is correct'')"
    unfolding lower_split by blast
  with lowered have variant: "is_halted feedback \<longleftrightarrow>
      (\<exists>pre v post. feedback = pre @ v @ post \<and> lower v = ''it is correct'')"
    by simp
  have examples: "is_halted ''It Is Correct'' \<and> is_halted ''it is correct''
      \<and> is_halted ''IT IS CORRECT'' \<and> \<not> is_halted ''the answer is correctish''"
    by (simp add: is_halted_def lower_def lower_char_def startswith_def char_of_eq_iff)
  from lowered variant examples show ?thesis by blast
qed

text \<open>
  C8. Halting feedback stays halting when any text is appended or prepended.
\<close>

theorem is_halted_append:
  assumes "is_halted f"
  shows "is_halted (f @ g) \<and> is_halted (g @ f)"
proof -
  from assms obtain pre post where occ: "lower f = pre @ ''it is correct'' @ post"
    using is_halted_occurrence by blast
  have "lower (f @ g) = pre @ ''it is correct'' @ (post @ lower g)"
    by (simp add: lower_append occ)
  then have right: "is_halted (f @ g)"
    using is_halted_occurrence by blast
  have "lower (g @ f) = (lower g @ pre) @ ''it is correct'' @ post"
    by (simp add: lower_append occ)
  then have left: "is_halted (g @ f)"
    using is_halted_occurrence by blast
  from right left show ?thesis ..
qed

theorem is_halted_append_witness:
  "is_halted ''Yes, It is correct''
   \<and> is_halted (''Yes, It is correct'' @ '' but wrong'')
   \<and> is_halted (''not that '' @ ''Yes, It is correct'')"
proof -
  have halts: "is_halted ''Yes, It is correct''"
    by (simp add: is_halted_def lower_def lower_char_def startswith_def char_of_eq_iff)
  with is_halted_append [OF halts] show ?thesis by blast
qed

text \<open>
  C9. The test is plain substring containment and knows no word boundary:
  \<open>edit is correct\<close> and \<open>audit is correct\<close> halt, although the only occurrence of
  the phrase in \<open>edit is correct\<close> starts inside the word \<open>edit\<close>, after \<open>ed\<close>.
\<close>

theorem is_halted_inside_word:
  "is_halted ''edit is correct''
   \<and> is_halted ''audit is correct''
   \<and> (\<forall>pre post. lower ''edit is correct'' = pre @ ''it is correct'' @ post \<longrightarrow>
         pre = ''ed'' \<and> post = [])"
proof -
  have halts: "is_halted ''edit is correct'' \<and> is_halted ''audit is correct''"
    by (simp add: is_halted_def lower_def lower_char_def startswith_def char_of_eq_iff)
  have only: "pre = ''ed'' \<and> post = []"
    if occ: "lower ''edit is correct'' = pre @ ''it is correct'' @ post" for pre post
  proof -
    have "lower ''edit is correct'' = ''edit is correct''"
      by (simp add: lower_def lower_char_def)
    with occ have eq: "''edit is correct'' = pre @ ''it is correct'' @ post"
      by simp
    show ?thesis
    proof (cases pre)
      case Nil
      with eq show ?thesis by simp
    next
      case outer: (Cons a p1)
      show ?thesis
      proof (cases p1)
        case Nil
        with eq outer show ?thesis by simp
      next
        case middle: (Cons b p2)
        show ?thesis
        proof (cases p2)
          case Nil
          with eq outer middle show ?thesis by simp
        next
          case (Cons c p3)
          from eq have "length ''edit is correct'' = length (pre @ ''it is correct'' @ post)"
            by simp
          with outer middle Cons show ?thesis by simp
        qed
      qed
    qed
  qed
  from halts only show ?thesis by blast
qed

theorem is_halted_inside_word_witness:
  "lower ''edit is correct'' = ''ed'' @ ''it is correct'' @ []
   \<and> is_halted ''edit is correct''
   \<and> is_halted ''audit is correct''"
proof -
  have "lower ''edit is correct'' = ''ed'' @ ''it is correct'' @ []"
    by (simp add: lower_def lower_char_def)
  with is_halted_inside_word show ?thesis by blast
qed

section \<open>The model callers: claims\<close>

text \<open>
  C6. Whenever the prompt is built and the model replies with a string, each of
  \<open>_prompt_agent\<close>, \<open>_prompt_feedback\<close> and \<open>_prompt_refine\<close> returns that reply
  stripped. The stripped reply neither starts nor ends with a whitespace character, and
  it is the reply with nothing but whitespace taken off its two ends.
\<close>

theorem prompt_returns_stripped_reply:
  "(build_agent_prompt fmt question examples template = Inr p
      \<and> llm log [HumanMessage p] = Inr (ContentStr reply) \<longrightarrow>
    fst (prompt_agent fmt llm question examples template log) = Inr (strip reply))
   \<and> (build_feedback_prompt fmt examples solution template = Inr p
      \<and> llm log [HumanMessage p] = Inr (ContentStr reply) \<longrightarrow>
    fst (prompt_feedback fmt llm examples solution template log) = Inr (strip reply))
   \<and> (build_refine_prompt fmt examples solution feedback template = Inr p
      \<and> llm log [HumanMessage p] = Inr (ContentStr reply) \<longrightarrow>
    fst (prompt_refine fmt llm examples solution feedback template log) = Inr (strip reply))
   \<and> (\<forall>c cs. strip reply = c # cs \<longrightarrow> \<not> is_space c)
   \<and> (\<forall>c cs. strip reply = cs @ [c] \<longrightarrow> \<not> is_space c)
   \<and> (\<exists>pre post. reply = pre @ strip reply @ post
         \<and> list_all is_space pre \<and> list_all is_space post)"
proof -
  have agent: "fst (prompt_agent fmt llm question examples template log) = Inr (strip reply)"
    if "build_agent_prompt fmt question examples template = Inr p"
      and "llm log [HumanMessage p] = Inr (ContentStr reply)"
    using that by (simp add: prompt_agent_def call_llm_def)
  have feedback: "fst (prompt_feedback fmt llm examples solution template log) = Inr (strip reply)"
    if "build_feedback_prompt fmt examples solution template = Inr p"
      and "llm log [HumanMessage p] = Inr (ContentStr reply)"
    using that by (simp add: prompt_feedback_def call_llm_def)
  have refine:
    "fst (prompt_refine fmt llm examples solution feedback template log) = Inr (strip reply)"
    if "build_refine_prompt fmt examples solution feedback template = Inr p"
      and "llm log [HumanMessage p] = Inr (ContentStr reply)"
    using that by (simp add: prompt_refine_def call_llm_def)
  from agent feedback refine strip_no_leading strip_no_trailing strip_spaces_only [of reply]
  show ?thesis by blast
qed

theorem prompt_returns_stripped_reply_witness:
  "build_agent_prompt sample_engine ''2+2?'' ''ex;'' ''A:'' = Inr ''A:2+2?ex;''
   \<and> sample_llm [] [HumanMessage ''A:2+2?ex;''] = Inr (ContentStr ''  4 \<newline>'')
   \<and> fst (prompt_agent sample_engine sample_llm ''2+2?'' ''ex;'' ''A:'' []) = Inr ''4''
   \<and> strip ''  4 \<newline>'' = ''4''
   \<and> \<not> is_space CHR ''4''"
proof -
  have built: "build_agent_prompt sample_engine ''2+2?'' ''ex;'' ''A:'' = Inr ''A:2+2?ex;''"
    by (simp add: build_agent_prompt_def sample_engine_def)
  have reply: "sample_llm [] [HumanMessage ''A:2+2?ex;''] = Inr (ContentStr ''  4 \<newline>'')"
    by (simp add: sample_llm_def)
  have stripped: "strip ''  4 \<newline>'' = ''4''"
    by (simp add: strip_def is_space_def)
  from prompt_returns_stripped_reply
    [of sample_engine "''2+2?''" "''ex;''" "''A:''" "''A:2+2?ex;''" sample_llm "[]"
      "''  4 \<newline>''"]
    built reply stripped
  show ?thesis by simp
qed



section \<open>Running Python code: claims\<close>

text \<open>
  C5. \<open>execute_python("a = 1*100")\<close> returns \<open>a = 100\<close>. The input has no separator
  and no outer whitespace, so it reaches the interpreter unchanged; given that Python
  runs \<open>a = 1*100\<close> to the namespace that binds \<open>a\<close> to 100, the listing is the
  single pair \<open>a = 100\<close>.
\<close>

theorem execute_python_example:
  assumes "exec ''a = 1*100'' = Completed [(''a'', PInt 100)]"
  shows "prepare_code ''a = 1*100'' = ''a = 1*100''
    \<and> execute_python exec ''a = 1*100'' = Inr ''a = 100''"
proof -
  from assms have "execute_python exec ''a = 1*100'' = Inr ''a = 100''"
    by (simp add: execute_python_def prepare_code_example startswith_def and_then_def
        str_of_int_100)
  with prepare_code_example show ?thesis ..
qed

theorem execute_python_example_witness:
  "sample_exec ''a = 1*100'' = Completed [(''a'', PInt 100)]
   \<and> execute_python sample_exec ''a = 1*100'' = Inr ''a = 100''"
proof -
  have run: "sample_exec ''a = 1*100'' = Completed [(''a'', PInt 100)]"
    by (simp add: sample_exec_def)
  with execute_python_example [of sample_exec, OF run] show ?thesis by simp
qed



section \<open>Wolfram Alpha: claims\<close>

text \<open>
  C3, as stated, fails: \<open>execute_wolfram\<close> reads one configuration value, not two.
  In an environment that sets \<open>WOLFRAM_ALPHA_APP_ID\<close> and nothing else, so that any
  second value is absent, it sends its request and returns what the response gives, not
  the fixed message.
\<close>

theorem execute_wolfram_two_values_counterexample:
  "execute_wolfram [''WOLFRAM_ALPHA_APP_ID'' \<mapsto> ''key''] (status_client 500) ''2+2''
     = (Inr ''Error occurred: 500'',
        [(''https://api.wolframalpha.com/v2/query'',
          [(''input'', ''2+2''), (''format'', ''plaintext''), (''output'', ''JSON''),
           (''appid'', ''key'')])])
   \<and> execute_wolfram [''WOLFRAM_ALPHA_APP_ID'' \<mapsto> ''key''] (status_client 500) ''2+2''
     \<noteq> (Inr wolfram_not_found, [])"
  by (simp add: execute_wolfram_def py_not_def wolfram_result_def status_client_def
      wolfram_base_url_def wolfram_params_def str_of_int_500)

text \<open>
  C3, amended. \<open>execute_wolfram\<close> requires the one value \<open>WOLFRAM_ALPHA_APP_ID\<close>.
  If it is absent or empty, the tool returns the fixed message, which contains
  \<open>not found in environment variables\<close>, and sends no HTTP request. Otherwise it sends
  exactly one, to the query URL, with the query and the value among its parameters.
  Nothing else of the environment matters: two environments that agree on this value
  give the same result and the same requests.
\<close>

theorem execute_wolfram_app_id:
  "(environ ''WOLFRAM_ALPHA_APP_ID'' = None \<or> environ ''WOLFRAM_ALPHA_APP_ID'' = Some [] \<longrightarrow>
      execute_wolfram environ requests_get query = (Inr wolfram_not_found, [])
      \<and> contains wolfram_not_found ''not found in environment variables'')
   \<and> (environ ''WOLFRAM_ALPHA_APP_ID'' = Some app_id \<and> app_id \<noteq> [] \<longrightarrow>
      snd (execute_wolfram environ requests_get query)
        = [(wolfram_base_url, wolfram_params query app_id)])
   \<and> (environ ''WOLFRAM_ALPHA_APP_ID'' = other ''WOLFRAM_ALPHA_APP_ID'' \<longrightarrow>
      execute_wolfram environ requests_get query = execute_wolfram other requests_get query)"
proof -
  have absent: "execute_wolfram environ requests_get query = (Inr wolfram_not_found, [])"
    if "environ ''WOLFRAM_ALPHA_APP_ID'' = None \<or> environ ''WOLFRAM_ALPHA_APP_ID'' = Some []"
    using that by (rule execute_wolfram_no_app_id)
  have present: "snd (execute_wolfram environ requests_get query)
      = [(wolfram_base_url, wolfram_params query app_id)]"
    if "environ ''WOLFRAM_ALPHA_APP_ID'' = Some app_id" and "app_id \<noteq> []"
    using execute_wolfram_with_app_id
      [where environ = environ and requests_get = requests_get, OF that]
    by simp
  have only: "execute_wolfram environ requests_get query
      = execute_wolfram other requests_get query"
    if "environ ''WOLFRAM_ALPHA_APP_ID'' = other ''WOLFRAM_ALPHA_APP_ID''"
    using that by (simp add: execute_wolfram_def)
  from absent present only wolfram_not_found_text show ?thesis by blast
qed

theorem execute_wolfram_app_id_witness:
  "(Map.empty :: environ) ''WOLFRAM_ALPHA_APP_ID'' = None
   \<and> execute_wolfram Map.empty unreachable_client ''2+2'' = (Inr wolfram_not_found, [])
   \<and> execute_wolfram [''WOLFRAM_ALPHA_APP_ID'' \<mapsto> []] unreachable_client ''2+2''
       = (Inr wolfram_not_found, [])
   \<and> snd (execute_wolfram [''WOLFRAM_ALPHA_APP_ID'' \<mapsto> ''key''] unreachable_client ''2+2'')
       = [(wolfram_base_url, wolfram_params ''2+2'' ''key'')]"
proof -
  from execute_wolfram_app_id
    [where environ = Map.empty and requests_get = unreachable_client and query = "''2+2''"]
  have none: "execute_wolfram Map.empty unreachable_client ''2+2'' = (Inr wolfram_not_found, [])"
    by simp
  from execute_wolfram_app_id
    [where environ = "[''WOLFRAM_ALPHA_APP_ID'' \<mapsto> []]"
      and requests_get = unreachable_client and query = "''2+2''"]
  have empty: "execute_wolfram [''WOLFRAM_ALPHA_APP_ID'' \<mapsto> []] unreachable_client ''2+2''
      = (Inr wolfram_not_found, [])"
    by simp
  from execute_wolfram_app_id
    [where environ = "[''WOLFRAM_ALPHA_APP_ID'' \<mapsto> ''key'']"
      and requests_get = unreachable_client and query = "''2+2''" and app_id = "''key''"]
  have set: "snd (execute_wolfram [''WOLFRAM_ALPHA_APP_ID'' \<mapsto> ''key''] unreachable_client
      ''2+2'') = [(wolfram_base_url, wolfram_params ''2+2'' ''key'')]"
    by simp
  from none empty set show ?thesis by simp
qed

section \<open>Google search: claims\<close>

text \<open>
  C4, as stated, fails: with both values present in the environment but the search-engine
  id empty, \<open>search_google\<close> returns the fixed message, not the snippet of the result
  the search would give.
\<close>

theorem search_google_present_counterexample:
  "[''GOOGLE_CSE_ID'' \<mapsto> [], ''GOOGLE_API_KEY'' \<mapsto> ''key''] ''GOOGLE_CSE_ID'' = Some []
   \<and> [''GOOGLE_CSE_ID'' \<mapsto> [], ''GOOGLE_API_KEY'' \<mapsto> ''key''] ''GOOGLE_API_KEY'' = Some ''key''
   \<and> search_google [''GOOGLE_CSE_ID'' \<mapsto> [], ''GOOGLE_API_KEY'' \<mapsto> ''key''] two_results
        ''isabelle''
      = Inr ''Google search key(s) not found in environment variables. Use a different tool.''"
  by (simp add: search_google_def py_not_def google_not_found_def)

text \<open>
  C4, amended. When both values are present and not empty, and the search for one
  result gives a list that is not empty and whose last element has a snippet,
  \<open>search_google\<close> returns exactly that snippet: of the last element, not the first.
  When either value is absent or empty it returns the fixed message.
\<close>

theorem search_google_last_snippet:
  "(environ ''GOOGLE_CSE_ID'' = Some cse_id \<and> cse_id \<noteq> []
      \<and> environ ''GOOGLE_API_KEY'' = Some google_key \<and> google_key \<noteq> []
      \<and> search_results google_key cse_id query 1 = Inr results \<and> results \<noteq> []
      \<and> map_of (last results) ''snippet'' = Some snippet \<longrightarrow>
    search_google environ search_results query = Inr snippet)
   \<and> (environ ''GOOGLE_CSE_ID'' = None \<or> environ ''GOOGLE_CSE_ID'' = Some []
      \<or> environ ''GOOGLE_API_KEY'' = None \<or> environ ''GOOGLE_API_KEY'' = Some [] \<longrightarrow>
    search_google environ search_results query = Inr google_not_found)"
proof -
  have found: "search_google environ search_results query = Inr snippet"
    if "environ ''GOOGLE_CSE_ID'' = Some cse_id" and "cse_id \<noteq> []"
      and "environ ''GOOGLE_API_KEY'' = Some google_key" and "google_key \<noteq> []"
      and "search_results google_key cse_id query 1 = Inr results" and "results \<noteq> []"
      and "map_of (last results) ''snippet'' = Some snippet"
    using search_google_with_keys
      [where environ = environ and search_results = search_results, OF that(1-4)] that(5-7)
    by (simp add: and_then_def)
  have missing: "search_google environ search_results query = Inr google_not_found"
    if "environ ''GOOGLE_CSE_ID'' = None \<or> environ ''GOOGLE_CSE_ID'' = Some []
      \<or> environ ''GOOGLE_API_KEY'' = None \<or> environ ''GOOGLE_API_KEY'' = Some []"
    using that by (rule search_google_no_keys)
  from found missing show ?thesis by blast
qed

theorem search_google_last_snippet_witness:
  "search_google [''GOOGLE_CSE_ID'' \<mapsto> ''engine'', ''GOOGLE_API_KEY'' \<mapsto> ''key''] two_results
      ''isabelle'' = Inr ''last hit''
   \<and> search_google [''GOOGLE_API_KEY'' \<mapsto> ''key''] two_results ''isabelle''
      = Inr google_not_found"
proof -
  let ?env = "[''GOOGLE_CSE_ID'' \<mapsto> ''engine'', ''GOOGLE_API_KEY'' \<mapsto> ''key'']"
  let ?results =
    "[[(''title'', ''First''), (''link'', ''https://a.example''), (''snippet'', ''first hit'')],
      [(''title'', ''Second''), (''link'', ''https://b.example''), (''snippet'', ''last hit'')]]"
  have search: "two_results ''key'' ''engine'' ''isabelle'' 1 = Inr ?results"
    by (simp add: two_results_def)
  from search_google_last_snippet
    [of ?env "''engine''" "''key''" two_results "''isabelle''" ?results "''last hit''"] search
  have found: "search_google ?env two_results ''isabelle'' = Inr ''last hit''"
    by simp
  from search_google_last_snippet
    [of "[''GOOGLE_API_KEY'' \<mapsto> ''key'']" _ _ two_results "''isabelle''"]
  have missing: "search_google [''GOOGLE_API_KEY'' \<mapsto> ''key''] two_results ''isabelle''
      = Inr google_not_found"
    by simp
  from found missing show ?thesis ..
qed


section \<open>The tools and exceptions: claims\<close>





end
